theory Spec2Isabelle
  imports Complex_Main "HOL-Library.Word"
begin

unbundle bit_operations_syntax

section \<open>JavaScript values used by the library\<close>

text \<open>
  Byte buffers (\<open>Buffer\<close>, \<open>Uint8Array\<close>) are lists of 8-bit words. A JavaScript number
  is an IEEE double: not-a-number, the two infinities, negative zero, or a finite value
  (every finite double is a rational; positive zero is \<open>Num 0\<close>). The library
  only ever compares numbers with \<open>===\<close> and \<open>!==\<close>, which is what \<open>strict_equals\<close>
  computes: \<open>NaN\<close> equals nothing, itself included, and the two zeros are equal.
\<close>

type_synonym bytes = "8 word list"

datatype jsnum = NaN | NegZero | PosInfinity | NegInfinity | Num rat

fun strict_equals :: "jsnum \<Rightarrow> jsnum \<Rightarrow> bool" where
  "strict_equals NaN _ = False"
| "strict_equals _ NaN = False"
| "strict_equals NegZero b = (b = NegZero \<or> b = Num 0)"
| "strict_equals a NegZero = (a = Num 0)"
| "strict_equals a b = (a = b)"

text \<open>
  What a \<open>throw\<close> carries: \<open>new Error(msg)\<close>, \<open>new TypeError(msg)\<close>, or whatever the
  promise of the Transformation Service client was rejected with. One message is a
  template string, \<open>`No proof key exists of version ${version}`\<close>; the model keeps the
  number instead of its printed form.
\<close>

datatype error =
    Error string
  | Error_No_proof_key_exists_of_version jsnum
  | TypeError string
  | Rejected string

text \<open>
  \<open>String.prototype.split\<close> with a one-character separator: a string with \<open>n\<close>
  separators gives \<open>n + 1\<close> parts, some of them possibly empty, and the empty string
  gives the single part \<open>''''\<close>.
\<close>

fun split :: "char \<Rightarrow> string \<Rightarrow> string list" where
  "split sep [] = [[]]"
| "split sep (c # cs) =
     (if c = sep then [] # split sep cs
      else (case split sep cs of
              [] \<Rightarrow> [[c]]
            | p # ps \<Rightarrow> (c # p) # ps))"

text \<open>
  The two built-ins the parsers call, \<open>Number(s)\<close> and \<open>Buffer.from(s, 'base64')\<close>,
  belong to the platform and not to the library; the model takes them as a parameter.
\<close>

record runtime =
  Number :: "string \<Rightarrow> jsnum"
  from_base64 :: "string \<Rightarrow> bytes"

section \<open>ProofKeys\<close>

text \<open>The argument of the constructor: \<open>string | string[]\<close>, or nothing at all.\<close>

datatype proofKeysArg = JNull | JUndefined | JString string | JArray "string list"

text \<open>\<open>toArray\<close>: \<open>null\<close> and \<open>undefined\<close> stay as they are (\<open>None\<close>).\<close>

fun toArray :: "proofKeysArg \<Rightarrow> string list option" where
  "toArray JNull = None"
| "toArray JUndefined = None"
| "toArray (JArray xs) = Some xs"
| "toArray (JString s) = Some [s]"

text \<open>
  The object literal \<open>{ version, data }\<close> that \<open>parseProofKey\<close> returns. Reading one of
  its properties by name gives the value written there, and \<open>undefined\<close> (\<open>None\<close>) for
  any other name.
\<close>

record proofKeyObject =
  version :: jsnum
  data :: bytes

datatype jsvalue = JNumber jsnum | JBuffer bytes

definition property :: "proofKeyObject \<Rightarrow> string \<Rightarrow> jsvalue option" where
  "property k name =
     map_of [(''version'', JNumber (proofKeyObject.version k)),
             (''data'', JBuffer (proofKeyObject.data k))] name"

definition parseProofKey :: "runtime \<Rightarrow> string \<Rightarrow> error + proofKeyObject" where
  "parseProofKey rt str =
     (let parts = split CHR ''.'' str in
      if length parts \<noteq> 3 \<or> parts ! 0 \<noteq> ''PK''
      then Inl (Error ''ProofKey string is invalid'')
      else
        let version' = Number rt (parts ! 1);
            data' = from_base64 rt (parts ! 2)
        in Inr \<lparr>proofKeyObject.version = version', data = data'\<rparr>)"

text \<open>
  \<open>proofKeys.map(parseProofKey)\<close>: the descriptors are parsed from left to right and the
  first \<open>throw\<close> ends the whole map.
\<close>

fun map_parseProofKey :: "runtime \<Rightarrow> string list \<Rightarrow> error + proofKeyObject list" where
  "map_parseProofKey rt [] = Inr []"
| "map_parseProofKey rt (s # ss) =
     (case parseProofKey rt s of
        Inl e \<Rightarrow> Inl e
      | Inr k \<Rightarrow>
          (case map_parseProofKey rt ss of
             Inl e \<Rightarrow> Inl e
           | Inr ks \<Rightarrow> Inr (k # ks)))"

text \<open>
  The constructor; the value returned is the field \<open>this.proofKeys\<close> of the new
  instance, the only state a \<open>ProofKeys\<close> has.
\<close>

definition ProofKeys :: "runtime \<Rightarrow> proofKeysArg \<Rightarrow> error + proofKeyObject list" where
  "ProofKeys rt arg =
     (case toArray arg of
        None \<Rightarrow> Inl (Error ''Parameter `proofKeys` must not be empty'')
      | Some proofKeys \<Rightarrow>
          if length proofKeys = 0
          then Inl (Error ''Parameter `proofKeys` must not be empty'')
          else map_parseProofKey rt proofKeys)"

text \<open>\<open>this.proofKeys[0]\<close> is \<open>undefined\<close> exactly when the array is empty.\<close>

definition currentKey :: "proofKeyObject list \<Rightarrow> error + proofKeyObject" where
  "currentKey proofKeys =
     (case proofKeys of
        [] \<Rightarrow> Inl (Error ''No proof key exists'')
      | k # _ \<Rightarrow> Inr k)"

text \<open>\<open>Array.prototype.find\<close> is \<open>find\<close>: the first element that satisfies the predicate.\<close>

definition proofKey :: "proofKeyObject list \<Rightarrow> jsnum \<Rightarrow> error + proofKeyObject" where
  "proofKey proofKeys version' =
     (case find (\<lambda>k. strict_equals (proofKeyObject.version k) version') proofKeys of
        None \<Rightarrow> Inl (Error_No_proof_key_exists_of_version version')
      | Some k \<Rightarrow> Inr k)"

section \<open>Pythia\<close>

text \<open>
  Modelled from the spec: the class \<open>BreachProofPassword\<close> is imported by \<open>Pythia.ts\<close> but
  its file is not among the sources. Following the data model of the specification (and
  the three properties \<open>Pythia.ts\<close> reads), it is a value with a salt, a deblinded
  password and a version, and \<open>new BreachProofPassword(salt, deblindedPassword, version)\<close>
  stores its three arguments unchanged.
\<close>

record BreachProofPassword =
  salt :: bytes
  deblindedPassword :: bytes
  version :: jsnum

text \<open>What \<open>parseUpdateToken\<close> returns.\<close>

record updateToken =
  prevVersion :: jsnum
  nextVersion :: jsnum
  token :: bytes

text \<open>
  The argument and the result of \<open>pythiaClient.transformPassword\<close>. \<open>includeProof\<close> is
  an optional boolean; the \<open>proof\<close> of a response may be missing.
\<close>

record request =
  blindedPassword :: bytes
  includeProof :: "bool option"
  salt :: bytes
  version :: jsnum

record proofValues =
  valueC :: bytes
  valueU :: bytes

record response =
  transformedPassword :: bytes
  proof' :: "proofValues option"

text \<open>
  The collaborators an instance of \<open>Pythia\<close> holds, and \<open>dataToUint8Array\<close> of the
  data-utils package. None of them is code of the library, so each is a parameter: the
  field gives what the collaborator returns when called in the run at hand (the random
  salt, the blinding, the answer of the service or the rejection of its promise). The
  type \<open>'d\<close> is that of the passwords a caller may pass (\<open>Data\<close>).
\<close>

record 'd Pythia =
  getRandomBytes :: "nat \<Rightarrow> bytes"
  proofKeys :: "proofKeyObject list"
  transformPassword :: "request \<Rightarrow> error + response"
  dataToUint8Array :: "'d \<Rightarrow> bytes"
  blind :: "bytes \<Rightarrow> bytes \<times> bytes"
  verify :: "bytes \<Rightarrow> bytes \<Rightarrow> bytes \<Rightarrow> jsvalue option \<Rightarrow> bytes \<Rightarrow> bytes \<Rightarrow> bool"
  deblind :: "bytes \<Rightarrow> bytes \<Rightarrow> bytes"
  updateDeblindedWithToken :: "bytes \<Rightarrow> bytes \<Rightarrow> bytes"

text \<open>
  The calls a run makes on its collaborators, in the order made, with their arguments
  (and, for \<open>verify\<close> and \<open>deblind\<close>, what the call returned).
\<close>

datatype event =
    GetRandomBytes nat
  | Blind bytes
  | CurrentKey
  | ProofKeyOfVersion jsnum
  | TransformPassword request
  | Verify bytes bytes bytes "jsvalue option" bytes bytes bool
  | Deblind bytes bytes bytes
  | ConstantTimeEqual bytes bytes

text \<open>
  Modelled from the spec: \<open>constantTimeEqual\<close> is imported from \<open>./utils\<close>, which is not
  among the sources. The specification asks for a dedicated, branch-free comparison of
  two byte sequences that does not stop at the first mismatching byte and whose outcome
  is a boolean, never an exception. The model visits every position, folding the
  exclusive-or of the two bytes into an accumulator, and counts the positions visited;
  sequences of different lengths do not match.
\<close>

fun scan :: "bytes \<Rightarrow> bytes \<Rightarrow> 8 word \<times> nat \<Rightarrow> 8 word \<times> nat" where
  "scan (x # xs) (y # ys) (acc, n) = scan xs ys (acc OR (x XOR y), Suc n)"
| "scan _ _ (acc, n) = (acc, n)"

definition constantTimeEqual_counted :: "bytes \<Rightarrow> bytes \<Rightarrow> bool \<times> nat" where
  "constantTimeEqual_counted buf1 buf2 =
     (let (acc, n) = scan buf1 buf2 (0, 0) in (length buf1 = length buf2 \<and> acc = 0, n))"

definition constantTimeEqual :: "bytes \<Rightarrow> bytes \<Rightarrow> bool" where
  "constantTimeEqual buf1 buf2 = fst (constantTimeEqual_counted buf1 buf2)"

definition positions_visited :: "bytes \<Rightarrow> bytes \<Rightarrow> nat" where
  "positions_visited buf1 buf2 = snd (constantTimeEqual_counted buf1 buf2)"

definition parseUpdateToken :: "runtime \<Rightarrow> string \<Rightarrow> error + updateToken" where
  "parseUpdateToken rt updateToken' =
     (let parts = split CHR ''.'' updateToken' in
      if length parts \<noteq> 4 \<or> parts ! 0 \<noteq> ''UT''
      then Inl (TypeError ''`updateToken` format is invalid'')
      else Inr \<lparr>prevVersion = Number rt (parts ! 1),
                nextVersion = Number rt (parts ! 2),
                token = from_base64 rt (parts ! 3)\<rparr>)"

text \<open>\<open>a !== b\<close> is the negation of \<open>a === b\<close>.\<close>

definition updateBreachProofPassword ::
  "runtime \<Rightarrow> 'd Pythia \<Rightarrow> string \<Rightarrow> BreachProofPassword \<Rightarrow> error + BreachProofPassword" where
  "updateBreachProofPassword rt this updateToken' breachProofPassword =
     (case parseUpdateToken rt updateToken' of
        Inl e \<Rightarrow> Inl e
      | Inr t \<Rightarrow>
          if \<not> strict_equals (BreachProofPassword.version breachProofPassword) (prevVersion t)
          then Inl (Error ''Unexpected breach-proof password version'')
          else
            let deblindedPassword' =
                  updateDeblindedWithToken this
                    (deblindedPassword breachProofPassword) (token t)
            in Inr \<lparr>BreachProofPassword.salt = BreachProofPassword.salt breachProofPassword,
                    deblindedPassword = deblindedPassword',
                    version = nextVersion t\<rparr>)"

text \<open>
  The two asynchronous operations return the calls made and then either the error thrown
  or the value returned. \<open>proof!.valueC\<close> on a response without proof is a property read
  on \<open>undefined\<close>, a \<open>TypeError\<close> whose wording is the engine's; it happens while the
  arguments of \<open>verify\<close> are evaluated, so \<open>verify\<close> is not called. \<open>if (includeProof)\<close>
  takes the branch for \<open>true\<close> only, not for \<open>false\<close> or \<open>undefined\<close>.
\<close>

definition verifyBreachProofPassword ::
  "'d Pythia \<Rightarrow> 'd \<Rightarrow> BreachProofPassword \<Rightarrow> bool option \<Rightarrow> event list \<times> (error + bool)" where
  "verifyBreachProofPassword this password breachProofPassword includeProof' =
     (let myPassword = dataToUint8Array this password;
          (blindedPassword', blindingSecret) = blind this myPassword;
          t1 = [Blind myPassword,
                ProofKeyOfVersion (BreachProofPassword.version breachProofPassword)]
      in
      case proofKey (proofKeys this) (BreachProofPassword.version breachProofPassword) of
        Inl e \<Rightarrow> (t1, Inl e)
      | Inr theProofKey \<Rightarrow>
         (let req = \<lparr>blindedPassword = blindedPassword',
                     includeProof = includeProof',
                     salt = BreachProofPassword.salt breachProofPassword,
                     version = BreachProofPassword.version breachProofPassword\<rparr>;
              t2 = t1 @ [TransformPassword req]
          in
          case transformPassword this req of
            Inl e \<Rightarrow> (t2, Inl e)
          | Inr res \<Rightarrow>
             (let (t3, thrown) =
                    (if includeProof' = Some True then
                       (case proof' res of
                          None \<Rightarrow>
                            (t2, Some (TypeError ''Cannot read properties of undefined''))
                        | Some p \<Rightarrow>
                           (let verified =
                                  verify this (transformedPassword res) blindedPassword'
                                    (BreachProofPassword.salt breachProofPassword)
                                    (property theProofKey ''key'') (valueC p) (valueU p)
                            in
                            (t2 @ [Verify (transformedPassword res) blindedPassword'
                                     (BreachProofPassword.salt breachProofPassword)
                                     (property theProofKey ''key'') (valueC p) (valueU p)
                                     verified],
                             if \<not> verified
                             then Some (Error
                                    ''Transformed password proof verification has failed'')
                             else None)))
                     else (t2, None))
              in
              case thrown of
                Some e \<Rightarrow> (t3, Inl e)
              | None \<Rightarrow>
                 (let deblindedPassword' =
                        deblind this (transformedPassword res) blindingSecret
                  in
                  (t3 @ [Deblind (transformedPassword res) blindingSecret deblindedPassword',
                         ConstantTimeEqual deblindedPassword'
                           (deblindedPassword breachProofPassword)],
                   Inr (constantTimeEqual deblindedPassword'
                          (deblindedPassword breachProofPassword)))))))"

definition SALT_BYTE_LENGTH :: nat where
  "SALT_BYTE_LENGTH = 32"

definition createBreachProofPassword ::
  "'d Pythia \<Rightarrow> 'd \<Rightarrow> event list \<times> (error + BreachProofPassword)" where
  "createBreachProofPassword this password =
     (let salt' = getRandomBytes this SALT_BYTE_LENGTH;
          myPassword = dataToUint8Array this password;
          (blindedPassword', blindingSecret) = blind this myPassword;
          t1 = [GetRandomBytes SALT_BYTE_LENGTH, Blind myPassword, CurrentKey]
      in
      case currentKey (proofKeys this) of
        Inl e \<Rightarrow> (t1, Inl e)
      | Inr latestProofKey \<Rightarrow>
         (let req = \<lparr>blindedPassword = blindedPassword',
                     includeProof = Some True,
                     salt = salt',
                     version = proofKeyObject.version latestProofKey\<rparr>;
              t2 = t1 @ [TransformPassword req]
          in
          case transformPassword this req of
            Inl e \<Rightarrow> (t2, Inl e)
          | Inr res \<Rightarrow>
              (case proof' res of
                 None \<Rightarrow> (t2, Inl (TypeError ''Cannot read properties of undefined''))
               | Some p \<Rightarrow>
                   let verified =
                         verify this (transformedPassword res) blindedPassword' salt'
                           (property latestProofKey ''key'') (valueC p) (valueU p);
                       t3 = t2 @ [Verify (transformedPassword res) blindedPassword' salt'
                                    (property latestProofKey ''key'') (valueC p) (valueU p)
                                    verified]
                   in
                   if \<not> verified
                   then (t3, Inl (Error ''Transformed password proof verification has failed''))
                   else
                     let deblindedPassword' =
                           deblind this (transformedPassword res) blindingSecret
                     in
                     (t3 @ [Deblind (transformedPassword res) blindingSecret deblindedPassword'],
                      Inr \<lparr>BreachProofPassword.salt = salt',
                           deblindedPassword = deblindedPassword',
                           version = proofKeyObject.version latestProofKey\<rparr>))))"

section \<open>The specification's conditions\<close>

text \<open>
  The conditions below follow the words of the specification: a descriptor is rejected
  when it does not have exactly 3 dot-separated fields or its first field is not the tag
  \<open>PK\<close>; a token when it does not have exactly 4 fields or its first field is not \<open>UT\<close>.
  \<open>descriptors\<close> lists what the caller configured, nothing for an absent argument, and
  \<open>parsed\<close> is the proof key a well-formed descriptor stands for.
\<close>

definition descriptor_malformed :: "string \<Rightarrow> bool" where
  "descriptor_malformed d =
     (length (split CHR ''.'' d) \<noteq> 3 \<or> split CHR ''.'' d ! 0 \<noteq> ''PK'')"

definition token_malformed :: "string \<Rightarrow> bool" where
  "token_malformed s =
     (length (split CHR ''.'' s) \<noteq> 4 \<or> split CHR ''.'' s ! 0 \<noteq> ''UT'')"

definition descriptors :: "proofKeysArg \<Rightarrow> string list" where
  "descriptors arg = (case toArray arg of None \<Rightarrow> [] | Some ds \<Rightarrow> ds)"

definition parsed :: "runtime \<Rightarrow> string \<Rightarrow> proofKeyObject" where
  "parsed rt d =
     \<lparr>proofKeyObject.version = Number rt (split CHR ''.'' d ! 1),
      data = from_base64 rt (split CHR ''.'' d ! 2)\<rparr>"

section \<open>Test doubles\<close>

text \<open>
  Concrete collaborators on which the model can be run. \<open>sample_Number\<close> reads a
  non-empty string of decimal digits as the integer it denotes (as \<open>Number\<close> does for
  integers small enough to be exact) and gives \<open>NaN\<close> for everything else;
  \<open>sample_from_base64\<close> decodes the standard alphabet and skips any other character.
  The crypto engine of \<open>sample_pythia\<close> blinds with the identity and a fixed secret, the
  service answers with the blinded password and a proof, and \<open>verify\<close> answers \<open>ok\<close>.
\<close>

definition sample_Number :: "string \<Rightarrow> jsnum" where
  "sample_Number s =
     (if s \<noteq> [] \<and> list_all (\<lambda>c. 48 \<le> (of_char c :: nat) \<and> (of_char c :: nat) \<le> 57) s
      then Num (of_nat (foldl (\<lambda>n c. 10 * n + (of_char c - 48)) (0 :: nat) s))
      else NaN)"

definition sextet :: "char \<Rightarrow> nat option" where
  "sextet c =
     (let n = of_char c :: nat in
      if 65 \<le> n \<and> n \<le> 90 then Some (n - 65)
      else if 97 \<le> n \<and> n \<le> 122 then Some (n - 71)
      else if 48 \<le> n \<and> n \<le> 57 then Some (n + 4)
      else if n = 43 then Some 62
      else if n = 47 then Some 63
      else None)"

fun octets :: "nat list \<Rightarrow> bytes" where
  "octets (a # b # c # d # r) =
     of_nat (4 * a + b div 16) # of_nat (16 * (b mod 16) + c div 4)
       # of_nat (64 * (c mod 4) + d) # octets r"
| "octets [a, b, c] = [of_nat (4 * a + b div 16), of_nat (16 * (b mod 16) + c div 4)]"
| "octets [a, b] = [of_nat (4 * a + b div 16)]"
| "octets _ = []"

definition sample_from_base64 :: "string \<Rightarrow> bytes" where
  "sample_from_base64 s = octets (List.map_filter sextet s)"

definition sample_runtime :: runtime where
  "sample_runtime = \<lparr>Number = sample_Number, from_base64 = sample_from_base64\<rparr>"

definition sample_pythia :: "bool \<Rightarrow> string Pythia" where
  "sample_pythia ok =
     \<lparr>getRandomBytes = (\<lambda>n. replicate n 7),
      proofKeys = [\<lparr>proofKeyObject.version = Num 1, data = [65]\<rparr>],
      transformPassword =
        (\<lambda>req. Inr \<lparr>transformedPassword = blindedPassword req,
                       proof' = Some \<lparr>valueC = [1], valueU = [2]\<rparr>\<rparr>),
      dataToUint8Array = map of_char,
      blind = (\<lambda>p. (p, [9])),
      verify = (\<lambda>_ _ _ _ _ _. ok),
      deblind = (\<lambda>tp _. tp),
      updateDeblindedWithToken = (\<lambda>d t. d @ t)\<rparr>"

definition sample_record :: "jsnum \<Rightarrow> BreachProofPassword" where
  "sample_record v =
     \<lparr>BreachProofPassword.salt = [7], deblindedPassword = [97], version = v\<rparr>"

section \<open>The proof-key registry\<close>

lemma split_no_sep: "sep \<notin> set s \<Longrightarrow> split sep s = [s]"
  by (induction s) auto

lemma parseProofKey_cases:
  "parseProofKey rt d =
     (if descriptor_malformed d then Inl (Error ''ProofKey string is invalid'')
      else Inr (parsed rt d))"
  by (simp add: parseProofKey_def descriptor_malformed_def parsed_def Let_def)

lemma map_parseProofKey_cases:
  "map_parseProofKey rt ds =
     (if \<exists>d \<in> set ds. descriptor_malformed d
      then Inl (Error ''ProofKey string is invalid'')
      else Inr (map (parsed rt) ds))"
  by (induction ds) (simp_all add: parseProofKey_cases)

lemma ProofKeys_cases:
  "ProofKeys rt arg =
     (if descriptors arg = [] then Inl (Error ''Parameter `proofKeys` must not be empty'')
      else if \<exists>d \<in> set (descriptors arg). descriptor_malformed d
      then Inl (Error ''ProofKey string is invalid'')
      else Inr (map (parsed rt) (descriptors arg)))"
  by (cases arg) (simp_all add: ProofKeys_def descriptors_def map_parseProofKey_cases)

lemma descriptors_Nil:
  "descriptors arg = [] \<longleftrightarrow> arg = JNull \<or> arg = JUndefined \<or> arg = JArray []"
  by (cases arg) (simp_all add: descriptors_def)

lemma find_map: "find P (map f xs) = map_option f (find (\<lambda>x. P (f x)) xs)"
  by (induction xs) auto

text \<open>
  The lookup of a version in a registry built from descriptors: the first descriptor, in
  the order configured, whose parsed version is strictly equal to the one asked for
  decides, and the object returned carries the decoded third field under \<open>data\<close>.
\<close>

lemma proofKey_first_match:
  assumes "ProofKeys rt arg = Inr ks"
  shows "proofKey ks v =
     (case find (\<lambda>d. strict_equals (Number rt (split CHR ''.'' d ! 1)) v) (descriptors arg) of
        None \<Rightarrow> Inl (Error_No_proof_key_exists_of_version v)
      | Some d \<Rightarrow> Inr \<lparr>proofKeyObject.version = Number rt (split CHR ''.'' d ! 1),
                        data = from_base64 rt (split CHR ''.'' d ! 2)\<rparr>)"
proof -
  from assms have ks: "ks = map (parsed rt) (descriptors arg)"
    by (simp add: ProofKeys_cases split: if_splits)
  show ?thesis
    by (simp add: proofKey_def ks find_map parsed_def split: option.splits)
qed

lemma property_of_proofKeyObject:
  "property k ''version'' = Some (JNumber (proofKeyObject.version k))"
  "property k ''data'' = Some (JBuffer (proofKeyObject.data k))"
  "property k ''key'' = None"
  by (simp_all add: property_def)

text \<open>
  C4. A registry built from \<open>PK.1.QQ==\<close> and \<open>PK.2.Qg==\<close>, asked for version 2, returns the
  second key; the decoded bytes of the third field are in its property \<open>data\<close>, and its
  property \<open>key\<close>, the one \<open>Pythia.ts\<close> reads, is \<open>undefined\<close>.
\<close>

theorem proofKey_lacks_key_property:
  "\<exists>ks k. ProofKeys sample_runtime (JArray [''PK.1.QQ=='', ''PK.2.Qg=='']) = Inr ks
     \<and> proofKey ks (Num 2) = Inr k
     \<and> property k ''version'' = Some (JNumber (Num 2))
     \<and> property k ''data'' = Some (JBuffer (sample_from_base64 ''Qg==''))
     \<and> property k ''key'' = None"
proof -
  have "ProofKeys sample_runtime (JArray [''PK.1.QQ=='', ''PK.2.Qg=='']) =
          Inr [\<lparr>proofKeyObject.version = Num 1, data = [65]\<rparr>,
               \<lparr>proofKeyObject.version = Num 2, data = [66]\<rparr>]"
    by code_simp
  moreover have
    "proofKey [\<lparr>proofKeyObject.version = Num 1, data = [65]\<rparr>,
               \<lparr>proofKeyObject.version = Num 2, data = [66]\<rparr>] (Num 2) =
       Inr \<lparr>proofKeyObject.version = Num 2, data = [66]\<rparr>"
    by code_simp
  moreover have "sample_from_base64 ''Qg=='' = [66]"
    by code_simp
  ultimately show ?thesis
    by (simp add: property_of_proofKeyObject)
qed

text \<open>
  C5. Constructing the registry fails exactly when the argument is absent (\<open>null\<close> or
  \<open>undefined\<close>) or an empty array, or when some descriptor does not split into exactly 3
  fields or does not start with the tag \<open>PK\<close>. The failure is one of the two errors of the
  constructor, and a failure produces no registry at all, since the result is either the
  error or the registry.
\<close>

theorem ProofKeys_fails_iff:
  "(isl (ProofKeys rt arg) \<longleftrightarrow>
      (arg = JNull \<or> arg = JUndefined \<or> arg = JArray []
       \<or> (\<exists>d \<in> set (descriptors arg). descriptor_malformed d)))
   \<and> (\<forall>e. ProofKeys rt arg = Inl e \<longrightarrow>
          e = Error ''Parameter `proofKeys` must not be empty''
          \<or> e = Error ''ProofKey string is invalid'')"
  using descriptors_Nil [of arg] by (auto simp: ProofKeys_cases)

theorem ProofKeys_fails_iff_witness:
  "descriptor_malformed ''PK.1''
   \<and> isl (ProofKeys sample_runtime (JArray [''PK.1.QQ=='', ''PK.1'']))
   \<and> ProofKeys sample_runtime (JArray [''PK.1.QQ=='', ''PK.1'']) =
         Inl (Error ''ProofKey string is invalid'')"
proof -
  have m: "descriptor_malformed ''PK.1''"
    by (simp add: descriptor_malformed_def)
  have e: "ProofKeys sample_runtime (JArray [''PK.1.QQ=='', ''PK.1'']) \<noteq>
             Inl (Error ''Parameter `proofKeys` must not be empty'')"
    by code_simp
  from m have "\<exists>d \<in> set (descriptors (JArray [''PK.1.QQ=='', ''PK.1''])). descriptor_malformed d"
    by (simp add: descriptors_def)
  with ProofKeys_fails_iff [of sample_runtime "JArray [''PK.1.QQ=='', ''PK.1'']"] m e
  show ?thesis
    by (cases "ProofKeys sample_runtime (JArray [''PK.1.QQ=='', ''PK.1''])") auto
qed

text \<open>
  C7. A registry that was constructed is not empty, so \<open>currentKey\<close> never takes its
  error branch on it: it returns the key at position 0, which is the parse of the first
  descriptor configured.
\<close>

theorem currentKey_after_construction:
  "ProofKeys rt arg = Inr ks \<Longrightarrow>
     ks \<noteq> [] \<and> currentKey ks = Inr (ks ! 0) \<and> ks ! 0 = parsed rt (descriptors arg ! 0)"
  by (cases "descriptors arg")
     (auto simp: ProofKeys_cases currentKey_def split: if_splits)

theorem currentKey_after_construction_witness:
  "ProofKeys sample_runtime (JArray [''PK.1.QQ=='', ''PK.2.Qg=='']) =
     Inr [\<lparr>proofKeyObject.version = Num 1, data = [65]\<rparr>,
          \<lparr>proofKeyObject.version = Num 2, data = [66]\<rparr>]
   \<and> currentKey [\<lparr>proofKeyObject.version = Num 1, data = [65]\<rparr>,
                   \<lparr>proofKeyObject.version = Num 2, data = [66]\<rparr>] =
         Inr \<lparr>proofKeyObject.version = Num 1, data = [65]\<rparr>"
proof -
  have c: "ProofKeys sample_runtime (JArray [''PK.1.QQ=='', ''PK.2.Qg=='']) =
             Inr [\<lparr>proofKeyObject.version = Num 1, data = [65]\<rparr>,
                  \<lparr>proofKeyObject.version = Num 2, data = [66]\<rparr>]"
    by code_simp
  have "currentKey [\<lparr>proofKeyObject.version = Num 1, data = [65]\<rparr>,
                    \<lparr>proofKeyObject.version = Num 2, data = [66]\<rparr>] =
          Inr ([\<lparr>proofKeyObject.version = Num 1, data = [65]\<rparr>,
                \<lparr>proofKeyObject.version = Num 2, data = [66]\<rparr>] ! 0)"
    using currentKey_after_construction [OF c] by blast
  with c show ?thesis
    by simp
qed

section \<open>Update tokens\<close>

text \<open>
  C6. Parsing a token fails, with the \<open>TypeError\<close> of the format check, exactly when the
  token is malformed; otherwise it returns the numeric parses of fields 2 and 3 and the
  base64 decoding of field 4. For a runtime whose \<open>Number\<close> reads \<open>''1''\<close> as 1 and
  \<open>''2''\<close> as 2, as that of JavaScript does, the token \<open>UT.1.2.T\<close> parses to previous
  version 1, next version 2 and the decoding of \<open>T\<close> (a base64 text has no dot).
\<close>

theorem parseUpdateToken_spec:
  "parseUpdateToken rt s =
     (if token_malformed s then Inl (TypeError ''`updateToken` format is invalid'')
      else Inr \<lparr>prevVersion = Number rt (split CHR ''.'' s ! 1),
                nextVersion = Number rt (split CHR ''.'' s ! 2),
                token = from_base64 rt (split CHR ''.'' s ! 3)\<rparr>)
   \<and> (CHR ''.'' \<notin> set T \<and> Number rt ''1'' = Num 1 \<and> Number rt ''2'' = Num 2 \<longrightarrow>
        parseUpdateToken rt (''UT.1.2.'' @ T) =
          Inr \<lparr>prevVersion = Num 1, nextVersion = Num 2, token = from_base64 rt T\<rparr>)"
  by (auto simp: parseUpdateToken_def token_malformed_def Let_def split_no_sep)

theorem parseUpdateToken_spec_witness:
  "CHR ''.'' \<notin> set ''eA==''
   \<and> Number sample_runtime ''1'' = Num 1 \<and> Number sample_runtime ''2'' = Num 2
   \<and> \<not> token_malformed ''UT.1.2.eA=='' \<and> token_malformed ''UT.1.2''
   \<and> parseUpdateToken sample_runtime ''UT.1.2.eA=='' =
         Inr \<lparr>prevVersion = Num 1, nextVersion = Num 2,
              token = from_base64 sample_runtime ''eA==''\<rparr>
   \<and> parseUpdateToken sample_runtime ''UT.1.2'' =
         Inl (TypeError ''`updateToken` format is invalid'')"
proof -
  have h: "CHR ''.'' \<notin> set ''eA==''"
    "Number sample_runtime ''1'' = Num 1" "Number sample_runtime ''2'' = Num 2"
    by (simp_all add: sample_runtime_def sample_Number_def)
  have m: "\<not> token_malformed ''UT.1.2.eA==''" "token_malformed ''UT.1.2''"
    by (simp_all add: token_malformed_def)
  from parseUpdateToken_spec [of sample_runtime "''UT.1.2''" "''eA==''"] h m
  show ?thesis
    by simp
qed

section \<open>Updating a record\<close>

text \<open>
  C2. With a token that parses, the update returns a record exactly when the version of
  the record is strictly equal to the previous version of the token; when the two differ
  it throws the version error, and so returns no record.
\<close>

theorem update_version_binding:
  assumes "parseUpdateToken rt tok = Inr t"
  shows "((\<exists>r. updateBreachProofPassword rt this tok bpp = Inr r) \<longleftrightarrow>
            strict_equals (BreachProofPassword.version bpp) (prevVersion t))
       \<and> (\<not> strict_equals (BreachProofPassword.version bpp) (prevVersion t) \<longrightarrow>
            updateBreachProofPassword rt this tok bpp =
              Inl (Error ''Unexpected breach-proof password version''))"
  using assms by (simp add: updateBreachProofPassword_def Let_def)

theorem update_version_binding_witness:
  "parseUpdateToken sample_runtime ''UT.1.2.eA=='' =
     Inr \<lparr>prevVersion = Num 1, nextVersion = Num 2, token = [120]\<rparr>
   \<and> \<not> strict_equals (BreachProofPassword.version (sample_record (Num 2))) (Num 1)
   \<and> updateBreachProofPassword sample_runtime (sample_pythia True) ''UT.1.2.eA==''
         (sample_record (Num 2)) =
       Inl (Error ''Unexpected breach-proof password version'')
   \<and> (\<nexists>r. updateBreachProofPassword sample_runtime (sample_pythia True) ''UT.1.2.eA==''
              (sample_record (Num 2)) = Inr r)"
proof -
  have p: "parseUpdateToken sample_runtime ''UT.1.2.eA=='' =
             Inr \<lparr>prevVersion = Num 1, nextVersion = Num 2, token = [120]\<rparr>"
    by code_simp
  have n: "\<not> strict_equals (BreachProofPassword.version (sample_record (Num 2))) (Num 1)"
    by (simp add: sample_record_def)
  from update_version_binding [OF p, of "sample_pythia True" "sample_record (Num 2)"] p n
  show ?thesis
    by simp
qed

text \<open>
  C3. With a token that parses and whose previous version is strictly equal to the version
  of the record, the update returns a record with the salt of the input record, the next
  version of the token, and \<open>updateDeblindedWithToken\<close> of the input's deblinded password
  and the bytes of the token.
\<close>

theorem update_result:
  assumes "parseUpdateToken rt tok = Inr t"
    and "strict_equals (BreachProofPassword.version bpp) (prevVersion t)"
  shows "updateBreachProofPassword rt this tok bpp =
           Inr \<lparr>BreachProofPassword.salt = BreachProofPassword.salt bpp,
                deblindedPassword =
                  updateDeblindedWithToken this (deblindedPassword bpp) (token t),
                version = nextVersion t\<rparr>"
  using assms by (simp add: updateBreachProofPassword_def Let_def)

theorem update_result_witness:
  "parseUpdateToken sample_runtime ''UT.1.2.eA=='' =
     Inr \<lparr>prevVersion = Num 1, nextVersion = Num 2, token = [120]\<rparr>
   \<and> strict_equals (BreachProofPassword.version (sample_record (Num 1))) (Num 1)
   \<and> updateBreachProofPassword sample_runtime (sample_pythia True) ''UT.1.2.eA==''
         (sample_record (Num 1)) =
       Inr \<lparr>BreachProofPassword.salt = [7], deblindedPassword = [97, 120],
            version = Num 2\<rparr>"
proof -
  have p: "parseUpdateToken sample_runtime ''UT.1.2.eA=='' =
             Inr \<lparr>prevVersion = Num 1, nextVersion = Num 2, token = [120]\<rparr>"
    by code_simp
  have e: "strict_equals (BreachProofPassword.version (sample_record (Num 1)))
             (prevVersion \<lparr>prevVersion = Num 1, nextVersion = Num 2, token = [120]\<rparr>)"
    by (simp add: sample_record_def)
  from update_result [OF p e, of "sample_pythia True"] p e
  show ?thesis
    by (simp add: sample_record_def sample_pythia_def)
qed

section \<open>The comparison of byte sequences\<close>

lemma xor_zero_iff: "(x XOR y = 0) \<longleftrightarrow> x = y" for x y :: "8 word"
proof
  assume "x XOR y = 0"
  then have "(x XOR y) XOR y = y" by simp
  then show "x = y" by (simp add: xor.assoc)
qed simp

lemma scan_count: "snd (scan a b (acc, n)) = n + min (length a) (length b)"
  by (induction a b "(acc, n)" arbitrary: acc n rule: scan.induct) auto

lemma scan_acc:
  "length a = length b \<Longrightarrow> (fst (scan a b (acc, n)) = 0) \<longleftrightarrow> (acc = 0 \<and> a = b)"
  by (induction a b "(acc, n)" arbitrary: acc n rule: scan.induct)
     (auto simp: or_eq_0_iff xor_zero_iff)

lemma constantTimeEqual_iff: "constantTimeEqual a b \<longleftrightarrow> a = b"
  using scan_acc [of a b 0 0]
  by (auto simp: constantTimeEqual_def constantTimeEqual_counted_def split: prod.splits)

lemma positions_visited_eq: "positions_visited a b = min (length a) (length b)"
  using scan_count [of a b 0 0]
  by (auto simp: positions_visited_def constantTimeEqual_counted_def split: prod.splits)

section \<open>Creating and verifying\<close>

lemma verify_gate:
  assumes "verifyBreachProofPassword this pw bpp ip = (t, r)"
    and "Verify a b c d e f False \<in> set t"
  shows "ip = Some True
       \<and> r = Inl (Error ''Transformed password proof verification has failed'')
       \<and> last t = Verify a b c d e f False
       \<and> (\<forall>x y z. Deblind x y z \<notin> set t) \<and> (\<forall>x y. ConstantTimeEqual x y \<notin> set t)"
  using assms
  by (auto simp: verifyBreachProofPassword_def Let_def
           split: prod.splits sum.splits option.splits if_splits)

lemma create_gate:
  assumes "createBreachProofPassword this pw = (t, r)"
    and "Verify a b c d e f False \<in> set t"
  shows "r = Inl (Error ''Transformed password proof verification has failed'')
       \<and> last t = Verify a b c d e f False
       \<and> (\<forall>x y z. Deblind x y z \<notin> set t)"
  using assms
  by (auto simp: createBreachProofPassword_def Let_def
           split: prod.splits sum.splits option.splits if_splits)

text \<open>
  The proof is checked whenever it was asked for and came back: with \<open>includeProof\<close> true,
  the key found and an answer of the service that carries a proof, the run calls \<open>verify\<close>
  on that answer. And the run deblinds once nothing before has thrown.
\<close>

lemma verify_checks_proof:
  assumes "blind this (dataToUint8Array this pw) = (blinded, secret)"
    and "proofKey (proofKeys this) (BreachProofPassword.version bpp) = Inr k"
    and "transformPassword this
           \<lparr>blindedPassword = blinded, includeProof = Some True,
            salt = BreachProofPassword.salt bpp,
            version = BreachProofPassword.version bpp\<rparr> = Inr res"
    and "proof' res = Some p"
  shows "Verify (transformedPassword res) blinded (BreachProofPassword.salt bpp)
           (property k ''key'') (valueC p) (valueU p)
           (verify this (transformedPassword res) blinded (BreachProofPassword.salt bpp)
              (property k ''key'') (valueC p) (valueU p))
         \<in> set (fst (verifyBreachProofPassword this pw bpp (Some True)))"
  using assms by (simp add: verifyBreachProofPassword_def Let_def)

lemma verify_reaches_deblind:
  assumes "blind this (dataToUint8Array this pw) = (blinded, secret)"
    and "proofKey (proofKeys this) (BreachProofPassword.version bpp) = Inr k"
    and "transformPassword this
           \<lparr>blindedPassword = blinded, includeProof = ip,
            salt = BreachProofPassword.salt bpp,
            version = BreachProofPassword.version bpp\<rparr> = Inr res"
    and "ip = Some True \<longrightarrow>
           (\<exists>p. proof' res = Some p
              \<and> verify this (transformedPassword res) blinded (BreachProofPassword.salt bpp)
                    (property k ''key'') (valueC p) (valueU p))"
  shows "Deblind (transformedPassword res) secret (deblind this (transformedPassword res) secret)
         \<in> set (fst (verifyBreachProofPassword this pw bpp ip))"
  using assms by (auto simp: verifyBreachProofPassword_def Let_def)

text \<open>
  Since the objects of the registry have no property \<open>key\<close>, every call of \<open>verify\<close> that
  the two operations make passes \<open>undefined\<close> where the proof key is expected.
\<close>

lemma verify_called_without_key:
  "Verify a b c k e f ok \<in> set (fst (verifyBreachProofPassword this pw bpp ip)) \<Longrightarrow> k = None"
  "Verify a b c k e f ok \<in> set (fst (createBreachProofPassword this pw)) \<Longrightarrow> k = None"
  by (auto simp: verifyBreachProofPassword_def createBreachProofPassword_def Let_def
             property_of_proofKeyObject
           split: prod.splits sum.splits option.splits if_splits)

text \<open>
  The same for \<open>createBreachProofPassword\<close>, which always asks for the proof: once the
  current key is there and the service has answered with a proof, the run calls \<open>verify\<close>
  on that answer. In both operations the boolean recorded with a call of \<open>verify\<close> is what
  the crypto engine answered on the arguments recorded.
\<close>

lemma create_checks_proof:
  assumes "blind this (dataToUint8Array this pw) = (blinded, secret)"
    and "currentKey (proofKeys this) = Inr k"
    and "transformPassword this
           \<lparr>blindedPassword = blinded, includeProof = Some True,
            salt = getRandomBytes this SALT_BYTE_LENGTH,
            version = proofKeyObject.version k\<rparr> = Inr res"
    and "proof' res = Some p"
  shows "Verify (transformedPassword res) blinded (getRandomBytes this SALT_BYTE_LENGTH)
           (property k ''key'') (valueC p) (valueU p)
           (verify this (transformedPassword res) blinded
              (getRandomBytes this SALT_BYTE_LENGTH)
              (property k ''key'') (valueC p) (valueU p))
         \<in> set (fst (createBreachProofPassword this pw))"
  using assms by (simp add: createBreachProofPassword_def Let_def)

lemma verify_event_is_answer:
  "Verify a b c k e f ok \<in> set (fst (verifyBreachProofPassword this pw bpp ip)) \<Longrightarrow>
     ok = verify this a b c k e f"
  "Verify a b c k e f ok \<in> set (fst (createBreachProofPassword this pw)) \<Longrightarrow>
     ok = verify this a b c k e f"
  by (auto simp: verifyBreachProofPassword_def createBreachProofPassword_def Let_def
           split: prod.splits sum.splits option.splits if_splits)

text \<open>
  The whole run of each operation when the crypto engine rejects the proof of the answer.
\<close>

lemma verify_rejected_proof:
  assumes "blind this (dataToUint8Array this pw) = (blinded, secret)"
    and "proofKey (proofKeys this) (BreachProofPassword.version bpp) = Inr k"
    and "transformPassword this
           \<lparr>blindedPassword = blinded, includeProof = Some True,
            salt = BreachProofPassword.salt bpp,
            version = BreachProofPassword.version bpp\<rparr> = Inr res"
    and "proof' res = Some p"
    and "\<not> verify this (transformedPassword res) blinded (BreachProofPassword.salt bpp)
             (property k ''key'') (valueC p) (valueU p)"
  shows "verifyBreachProofPassword this pw bpp (Some True) =
           ([Blind (dataToUint8Array this pw),
             ProofKeyOfVersion (BreachProofPassword.version bpp),
             TransformPassword
               \<lparr>blindedPassword = blinded, includeProof = Some True,
                salt = BreachProofPassword.salt bpp,
                version = BreachProofPassword.version bpp\<rparr>,
             Verify (transformedPassword res) blinded (BreachProofPassword.salt bpp)
               (property k ''key'') (valueC p) (valueU p) False],
            Inl (Error ''Transformed password proof verification has failed''))"
  using assms by (simp add: verifyBreachProofPassword_def Let_def)

lemma create_rejected_proof:
  assumes "blind this (dataToUint8Array this pw) = (blinded, secret)"
    and "currentKey (proofKeys this) = Inr k"
    and "transformPassword this
           \<lparr>blindedPassword = blinded, includeProof = Some True,
            salt = getRandomBytes this SALT_BYTE_LENGTH,
            version = proofKeyObject.version k\<rparr> = Inr res"
    and "proof' res = Some p"
    and "\<not> verify this (transformedPassword res) blinded
             (getRandomBytes this SALT_BYTE_LENGTH)
             (property k ''key'') (valueC p) (valueU p)"
  shows "createBreachProofPassword this pw =
           ([GetRandomBytes SALT_BYTE_LENGTH, Blind (dataToUint8Array this pw), CurrentKey,
             TransformPassword
               \<lparr>blindedPassword = blinded, includeProof = Some True,
                salt = getRandomBytes this SALT_BYTE_LENGTH,
                version = proofKeyObject.version k\<rparr>,
             Verify (transformedPassword res) blinded (getRandomBytes this SALT_BYTE_LENGTH)
               (property k ''key'') (valueC p) (valueU p) False],
            Inl (Error ''Transformed password proof verification has failed''))"
  using assms by (simp add: createBreachProofPassword_def Let_def)

text \<open>
  C1. Take a call of \<open>verifyBreachProofPassword\<close> with \<open>includeProof\<close> true, or a call of
  \<open>createBreachProofPassword\<close>, in which the proof key is found and the Transformation
  Service answers with a transformed password and a proof. If the crypto engine's \<open>verify\<close>
  answers false on that answer, the operation throws the proof-verification error, so it
  returns neither a boolean nor a record, and the run is exactly: blind, key lookup, call
  of the service, \<open>verify\<close>; the transformed password is neither deblinded nor compared
  (first two parts). Moreover no run of either operation gets past a call of \<open>verify\<close>
  that answered false, however it came about: such a call is the last of the run, and the
  outcome is that error (last two parts).
\<close>

theorem proof_verification_gate:
  "(blind this (dataToUint8Array this pw) = (blinded, secret)
      \<and> proofKey (proofKeys this) (BreachProofPassword.version bpp) = Inr k
      \<and> transformPassword this
            \<lparr>blindedPassword = blinded, includeProof = Some True,
             salt = BreachProofPassword.salt bpp,
             version = BreachProofPassword.version bpp\<rparr> = Inr res
      \<and> proof' res = Some p
      \<and> \<not> verify this (transformedPassword res) blinded (BreachProofPassword.salt bpp)
              (property k ''key'') (valueC p) (valueU p) \<longrightarrow>
    verifyBreachProofPassword this pw bpp (Some True) =
      ([Blind (dataToUint8Array this pw),
        ProofKeyOfVersion (BreachProofPassword.version bpp),
        TransformPassword
          \<lparr>blindedPassword = blinded, includeProof = Some True,
           salt = BreachProofPassword.salt bpp,
           version = BreachProofPassword.version bpp\<rparr>,
        Verify (transformedPassword res) blinded (BreachProofPassword.salt bpp)
          (property k ''key'') (valueC p) (valueU p) False],
       Inl (Error ''Transformed password proof verification has failed'')))
   \<and> (blind this (dataToUint8Array this pw') = (blinded', secret')
      \<and> currentKey (proofKeys this) = Inr k'
      \<and> transformPassword this
            \<lparr>blindedPassword = blinded', includeProof = Some True,
             salt = getRandomBytes this SALT_BYTE_LENGTH,
             version = proofKeyObject.version k'\<rparr> = Inr res'
      \<and> proof' res' = Some p'
      \<and> \<not> verify this (transformedPassword res') blinded'
              (getRandomBytes this SALT_BYTE_LENGTH)
              (property k' ''key'') (valueC p') (valueU p') \<longrightarrow>
    createBreachProofPassword this pw' =
      ([GetRandomBytes SALT_BYTE_LENGTH, Blind (dataToUint8Array this pw'), CurrentKey,
        TransformPassword
          \<lparr>blindedPassword = blinded', includeProof = Some True,
           salt = getRandomBytes this SALT_BYTE_LENGTH,
           version = proofKeyObject.version k'\<rparr>,
        Verify (transformedPassword res') blinded' (getRandomBytes this SALT_BYTE_LENGTH)
          (property k' ''key'') (valueC p') (valueU p') False],
       Inl (Error ''Transformed password proof verification has failed'')))
   \<and> (verifyBreachProofPassword this pw bpp ip = (t, r)
      \<and> Verify a b c d e f False \<in> set t \<longrightarrow>
    ip = Some True
    \<and> \<not> verify this a b c d e f
    \<and> r = Inl (Error ''Transformed password proof verification has failed'')
    \<and> last t = Verify a b c d e f False
    \<and> (\<forall>x y z. Deblind x y z \<notin> set t) \<and> (\<forall>x y. ConstantTimeEqual x y \<notin> set t))
   \<and> (createBreachProofPassword this pw' = (t', r')
      \<and> Verify a' b' c' d' e' f' False \<in> set t' \<longrightarrow>
    \<not> verify this a' b' c' d' e' f'
    \<and> r' = Inl (Error ''Transformed password proof verification has failed'')
    \<and> last t' = Verify a' b' c' d' e' f' False
    \<and> (\<forall>x y z. Deblind x y z \<notin> set t'))"
proof (intro conjI)
  show "blind this (dataToUint8Array this pw) = (blinded, secret)
      \<and> proofKey (proofKeys this) (BreachProofPassword.version bpp) = Inr k
      \<and> transformPassword this
            \<lparr>blindedPassword = blinded, includeProof = Some True,
             salt = BreachProofPassword.salt bpp,
             version = BreachProofPassword.version bpp\<rparr> = Inr res
      \<and> proof' res = Some p
      \<and> \<not> verify this (transformedPassword res) blinded (BreachProofPassword.salt bpp)
              (property k ''key'') (valueC p) (valueU p) \<longrightarrow>
    verifyBreachProofPassword this pw bpp (Some True) =
      ([Blind (dataToUint8Array this pw),
        ProofKeyOfVersion (BreachProofPassword.version bpp),
        TransformPassword
          \<lparr>blindedPassword = blinded, includeProof = Some True,
           salt = BreachProofPassword.salt bpp,
           version = BreachProofPassword.version bpp\<rparr>,
        Verify (transformedPassword res) blinded (BreachProofPassword.salt bpp)
          (property k ''key'') (valueC p) (valueU p) False],
       Inl (Error ''Transformed password proof verification has failed''))"
    using verify_rejected_proof [of this pw blinded secret bpp k res p] by blast
next
  show "blind this (dataToUint8Array this pw') = (blinded', secret')
      \<and> currentKey (proofKeys this) = Inr k'
      \<and> transformPassword this
            \<lparr>blindedPassword = blinded', includeProof = Some True,
             salt = getRandomBytes this SALT_BYTE_LENGTH,
             version = proofKeyObject.version k'\<rparr> = Inr res'
      \<and> proof' res' = Some p'
      \<and> \<not> verify this (transformedPassword res') blinded'
              (getRandomBytes this SALT_BYTE_LENGTH)
              (property k' ''key'') (valueC p') (valueU p') \<longrightarrow>
    createBreachProofPassword this pw' =
      ([GetRandomBytes SALT_BYTE_LENGTH, Blind (dataToUint8Array this pw'), CurrentKey,
        TransformPassword
          \<lparr>blindedPassword = blinded', includeProof = Some True,
           salt = getRandomBytes this SALT_BYTE_LENGTH,
           version = proofKeyObject.version k'\<rparr>,
        Verify (transformedPassword res') blinded' (getRandomBytes this SALT_BYTE_LENGTH)
          (property k' ''key'') (valueC p') (valueU p') False],
       Inl (Error ''Transformed password proof verification has failed''))"
    using create_rejected_proof [of this pw' blinded' secret' k' res' p'] by blast
next
  show "verifyBreachProofPassword this pw bpp ip = (t, r)
      \<and> Verify a b c d e f False \<in> set t \<longrightarrow>
    ip = Some True
    \<and> \<not> verify this a b c d e f
    \<and> r = Inl (Error ''Transformed password proof verification has failed'')
    \<and> last t = Verify a b c d e f False
    \<and> (\<forall>x y z. Deblind x y z \<notin> set t) \<and> (\<forall>x y. ConstantTimeEqual x y \<notin> set t)"
  proof
    assume h: "verifyBreachProofPassword this pw bpp ip = (t, r)
      \<and> Verify a b c d e f False \<in> set t"
    then have "Verify a b c d e f False \<in> set (fst (verifyBreachProofPassword this pw bpp ip))"
      by simp
    then have "\<not> verify this a b c d e f"
      using verify_event_is_answer(1) [of a b c d e f False this pw bpp ip] by simp
    with h verify_gate [of this pw bpp ip t r a b c d e f]
    show "ip = Some True
      \<and> \<not> verify this a b c d e f
      \<and> r = Inl (Error ''Transformed password proof verification has failed'')
      \<and> last t = Verify a b c d e f False
      \<and> (\<forall>x y z. Deblind x y z \<notin> set t) \<and> (\<forall>x y. ConstantTimeEqual x y \<notin> set t)"
      by blast
  qed
next
  show "createBreachProofPassword this pw' = (t', r')
      \<and> Verify a' b' c' d' e' f' False \<in> set t' \<longrightarrow>
    \<not> verify this a' b' c' d' e' f'
    \<and> r' = Inl (Error ''Transformed password proof verification has failed'')
    \<and> last t' = Verify a' b' c' d' e' f' False
    \<and> (\<forall>x y z. Deblind x y z \<notin> set t')"
  proof
    assume h: "createBreachProofPassword this pw' = (t', r')
      \<and> Verify a' b' c' d' e' f' False \<in> set t'"
    then have "Verify a' b' c' d' e' f' False \<in> set (fst (createBreachProofPassword this pw'))"
      by simp
    then have "\<not> verify this a' b' c' d' e' f'"
      using verify_event_is_answer(2) [of a' b' c' d' e' f' False this pw'] by simp
    with h create_gate [of this pw' t' r' a' b' c' d' e' f']
    show "\<not> verify this a' b' c' d' e' f'
      \<and> r' = Inl (Error ''Transformed password proof verification has failed'')
      \<and> last t' = Verify a' b' c' d' e' f' False
      \<and> (\<forall>x y z. Deblind x y z \<notin> set t')"
      by blast
  qed
qed

theorem proof_verification_gate_witness:
  "verifyBreachProofPassword (sample_pythia False) ''a'' (sample_record (Num 1)) (Some True) =
     ([Blind [97], ProofKeyOfVersion (Num 1),
       TransformPassword \<lparr>blindedPassword = [97], includeProof = Some True, salt = [7],
                           version = Num 1\<rparr>,
       Verify [97] [97] [7] None [1] [2] False],
      Inl (Error ''Transformed password proof verification has failed''))
   \<and> createBreachProofPassword (sample_pythia False) ''a'' =
     ([GetRandomBytes 32, Blind [97], CurrentKey,
       TransformPassword \<lparr>blindedPassword = [97], includeProof = Some True,
                           salt = replicate 32 7, version = Num 1\<rparr>,
       Verify [97] [97] (replicate 32 7) None [1] [2] False],
      Inl (Error ''Transformed password proof verification has failed''))
   \<and> last (fst (verifyBreachProofPassword (sample_pythia False) ''a'' (sample_record (Num 1))
                  (Some True))) =
       Verify [97] [97] [7] None [1] [2] False
   \<and> last (fst (createBreachProofPassword (sample_pythia False) ''a'')) =
       Verify [97] [97] (replicate 32 7) None [1] [2] False"
proof -
  let ?P = "sample_pythia False"
  let ?bpp = "sample_record (Num 1)"
  let ?k = "\<lparr>proofKeyObject.version = Num 1, data = [65]\<rparr>"
  let ?res = "\<lparr>transformedPassword = [97], proof' = Some \<lparr>valueC = [1], valueU = [2]\<rparr>\<rparr>"
  let ?p = "\<lparr>valueC = [1], valueU = [2]\<rparr>"
  have b: "blind ?P (dataToUint8Array ?P ''a'') = ([97], [9])"
    by (simp add: sample_pythia_def)
  have k: "proofKey (proofKeys ?P) (BreachProofPassword.version ?bpp) = Inr ?k"
    by (simp add: sample_pythia_def sample_record_def proofKey_def)
  have ck: "currentKey (proofKeys ?P) = Inr ?k"
    by (simp add: sample_pythia_def currentKey_def)
  have tv: "transformPassword ?P
              \<lparr>blindedPassword = [97], includeProof = Some True,
               salt = BreachProofPassword.salt ?bpp,
               version = BreachProofPassword.version ?bpp\<rparr> = Inr ?res"
    by (simp add: sample_pythia_def)
  have tc: "transformPassword ?P
              \<lparr>blindedPassword = [97], includeProof = Some True,
               salt = getRandomBytes ?P SALT_BYTE_LENGTH,
               version = proofKeyObject.version ?k\<rparr> = Inr ?res"
    by (simp add: sample_pythia_def)
  have pr: "proof' ?res = Some ?p"
    by simp
  have nv: "\<not> verify ?P (transformedPassword ?res) [97] (BreachProofPassword.salt ?bpp)
              (property ?k ''key'') (valueC ?p) (valueU ?p)"
    by (simp add: sample_pythia_def)
  have nc: "\<not> verify ?P (transformedPassword ?res) [97]
              (getRandomBytes ?P SALT_BYTE_LENGTH)
              (property ?k ''key'') (valueC ?p) (valueU ?p)"
    by (simp add: sample_pythia_def)
  note g = proof_verification_gate
    [where this = ?P and pw = "''a''" and bpp = ?bpp and blinded = "[97]"
       and secret = "[9]" and k = ?k and res = ?res and p = ?p
       and pw' = "''a''" and blinded' = "[97]" and secret' = "[9]" and k' = ?k
       and res' = ?res and p' = ?p]
  have v: "verifyBreachProofPassword ?P ''a'' ?bpp (Some True) =
      ([Blind (dataToUint8Array ?P ''a''),
        ProofKeyOfVersion (BreachProofPassword.version ?bpp),
        TransformPassword
          \<lparr>blindedPassword = [97], includeProof = Some True,
           salt = BreachProofPassword.salt ?bpp,
           version = BreachProofPassword.version ?bpp\<rparr>,
        Verify (transformedPassword ?res) [97] (BreachProofPassword.salt ?bpp)
          (property ?k ''key'') (valueC ?p) (valueU ?p) False],
       Inl (Error ''Transformed password proof verification has failed''))"
    using g b k tv pr nv by blast
  have c: "createBreachProofPassword ?P ''a'' =
      ([GetRandomBytes SALT_BYTE_LENGTH, Blind (dataToUint8Array ?P ''a''), CurrentKey,
        TransformPassword
          \<lparr>blindedPassword = [97], includeProof = Some True,
           salt = getRandomBytes ?P SALT_BYTE_LENGTH,
           version = proofKeyObject.version ?k\<rparr>,
        Verify (transformedPassword ?res) [97] (getRandomBytes ?P SALT_BYTE_LENGTH)
          (property ?k ''key'') (valueC ?p) (valueU ?p) False],
       Inl (Error ''Transformed password proof verification has failed''))"
    using g b ck tc pr nc by blast
  have lv: "last (fst (verifyBreachProofPassword ?P ''a'' ?bpp (Some True))) =
      Verify (transformedPassword ?res) [97] (BreachProofPassword.salt ?bpp)
        (property ?k ''key'') (valueC ?p) (valueU ?p) False"
    using proof_verification_gate
      [where this = ?P and pw = "''a''" and bpp = ?bpp and ip = "Some True"
         and t = "fst (verifyBreachProofPassword ?P ''a'' ?bpp (Some True))"
         and r = "snd (verifyBreachProofPassword ?P ''a'' ?bpp (Some True))"
         and a = "transformedPassword ?res" and b = "[97]"
         and c = "BreachProofPassword.salt ?bpp" and d = "property ?k ''key''"
         and e = "valueC ?p" and f = "valueU ?p"]
    by (simp add: v)
  have lc: "last (fst (createBreachProofPassword ?P ''a'')) =
      Verify (transformedPassword ?res) [97] (getRandomBytes ?P SALT_BYTE_LENGTH)
        (property ?k ''key'') (valueC ?p) (valueU ?p) False"
    using proof_verification_gate
      [where this = ?P and pw' = "''a''"
         and t' = "fst (createBreachProofPassword ?P ''a'')"
         and r' = "snd (createBreachProofPassword ?P ''a'')"
         and a' = "transformedPassword ?res" and b' = "[97]"
         and c' = "getRandomBytes ?P SALT_BYTE_LENGTH" and d' = "property ?k ''key''"
         and e' = "valueC ?p" and f' = "valueU ?p"]
    by (simp add: c)
  from v c lv lc show ?thesis
    by (simp add: sample_pythia_def sample_record_def SALT_BYTE_LENGTH_def
          property_of_proofKeyObject)
qed

lemma verify_returns:
  assumes "verifyBreachProofPassword this pw bpp ip = (t, Inr b)"
  shows "\<exists>before transformed secret.
           t = before @ [Deblind transformed secret (deblind this transformed secret),
                         ConstantTimeEqual (deblind this transformed secret)
                           (deblindedPassword bpp)]
           \<and> b = constantTimeEqual (deblind this transformed secret) (deblindedPassword bpp)"
  using assms
  by (auto simp: verifyBreachProofPassword_def Let_def
           split: prod.splits sum.splits option.splits if_splits)


lemma verify_starts:
  "\<exists>rest. fst (verifyBreachProofPassword this pw bpp ip) =
            Blind (dataToUint8Array this pw)
              # ProofKeyOfVersion (BreachProofPassword.version bpp) # rest"
  by (auto simp: verifyBreachProofPassword_def Let_def
           split: prod.splits sum.splits option.splits if_splits)

lemma verify_without_key:
  assumes "\<forall>k \<in> set (proofKeys this).
             \<not> strict_equals (proofKeyObject.version k) (BreachProofPassword.version bpp)"
  shows "verifyBreachProofPassword this pw bpp ip =
           ([Blind (dataToUint8Array this pw),
             ProofKeyOfVersion (BreachProofPassword.version bpp)],
            Inl (Error_No_proof_key_exists_of_version (BreachProofPassword.version bpp)))"
proof -
  from assms have
    "find (\<lambda>k. strict_equals (proofKeyObject.version k) (BreachProofPassword.version bpp))
       (proofKeys this) = None"
    by (simp add: find_None_iff)
  then show ?thesis
    by (simp add: verifyBreachProofPassword_def proofKey_def Let_def split: prod.splits)
qed

text \<open>
  C8. A run of \<open>verifyBreachProofPassword\<close> that returns a boolean ends by deblinding the
  transformed password and comparing the outcome with the deblinded password of the
  record through \<open>constantTimeEqual\<close>, whose answer it returns. That comparison visits
  every position of the two sequences whatever they hold: the number of positions visited
  is the same for any two pairs of sequences of the same lengths, so it does not depend on
  how many leading bytes agree. Time is measured here in positions visited.
\<close>

theorem verify_compares_in_constant_time:
  "(verifyBreachProofPassword this pw bpp ip = (t, Inr b) \<longrightarrow>
      (\<exists>before transformed secret.
         t = before @ [Deblind transformed secret (deblind this transformed secret),
                       ConstantTimeEqual (deblind this transformed secret)
                         (deblindedPassword bpp)]
         \<and> b = constantTimeEqual (deblind this transformed secret) (deblindedPassword bpp)))
   \<and> (length x' = length x \<and> length y' = length y \<longrightarrow>
        positions_visited x' y' = positions_visited x y)
   \<and> positions_visited x y = min (length x) (length y)
   \<and> (constantTimeEqual x y \<longleftrightarrow> x = y)"
  using verify_returns [of this pw bpp ip t b]
  by (simp add: positions_visited_eq constantTimeEqual_iff)

theorem verify_compares_in_constant_time_witness:
  "verifyBreachProofPassword (sample_pythia True) ''b'' (sample_record (Num 1)) None =
     ([Blind [98], ProofKeyOfVersion (Num 1),
       TransformPassword \<lparr>blindedPassword = [98], includeProof = None, salt = [7],
                           version = Num 1\<rparr>,
       Deblind [98] [9] [98], ConstantTimeEqual [98] [97]],
      Inr False)
   \<and> positions_visited [1, 2, 3] [1, 2, 4] = positions_visited [9, 2, 3] [1, 2, 3]
   \<and> positions_visited [9, 2, 3] [1, 2, 3] = 3"
proof -
  have v: "verifyBreachProofPassword (sample_pythia True) ''b'' (sample_record (Num 1)) None =
     ([Blind [98], ProofKeyOfVersion (Num 1),
       TransformPassword \<lparr>blindedPassword = [98], includeProof = None, salt = [7],
                           version = Num 1\<rparr>,
       Deblind [98] [9] [98], ConstantTimeEqual [98] [97]],
      Inr False)"
    by code_simp
  have l: "length [1, 2, 3 :: 8 word] = length [9, 2, 3 :: 8 word]"
    "length [1, 2, 4 :: 8 word] = length [1, 2, 3 :: 8 word]"
    by simp_all
  from verify_compares_in_constant_time
    [of "sample_pythia True" "''b''" "sample_record (Num 1)" None _ False
        "[1, 2, 3]" "[9, 2, 3]" "[1, 2, 4]" "[1, 2, 3]"] v l
  show ?thesis
    by simp
qed



text \<open>
  C10. Every run of \<open>verifyBreachProofPassword\<close>, whatever \<open>includeProof\<close> is, begins by
  blinding the password and looking up the proof key of the version of the record; a call
  of the Transformation Service can only come after. If no key of the registry has that
  version, the run is over after these two steps: it throws the no-such-version error and
  the service is not called.
\<close>

theorem proof_key_lookup_comes_first:
  "(\<exists>rest. fst (verifyBreachProofPassword this pw bpp ip) =
            Blind (dataToUint8Array this pw)
              # ProofKeyOfVersion (BreachProofPassword.version bpp) # rest)
   \<and> ((\<forall>k \<in> set (proofKeys this).
          \<not> strict_equals (proofKeyObject.version k) (BreachProofPassword.version bpp)) \<longrightarrow>
        verifyBreachProofPassword this pw bpp ip =
          ([Blind (dataToUint8Array this pw),
            ProofKeyOfVersion (BreachProofPassword.version bpp)],
           Inl (Error_No_proof_key_exists_of_version (BreachProofPassword.version bpp))))"
  using verify_starts [of this pw bpp ip] verify_without_key [of this bpp pw ip]
  by blast

theorem proof_key_lookup_comes_first_witness:
  "list_all (\<lambda>k. \<not> strict_equals (proofKeyObject.version k)
                     (BreachProofPassword.version (sample_record (Num 3))))
     (proofKeys (sample_pythia True))
   \<and> verifyBreachProofPassword (sample_pythia True) ''a'' (sample_record (Num 3)) None =
       ([Blind [97], ProofKeyOfVersion (Num 3)],
        Inl (Error_No_proof_key_exists_of_version (Num 3)))
   \<and> verifyBreachProofPassword (sample_pythia True) ''a'' (sample_record (Num 3)) (Some False) =
       ([Blind [97], ProofKeyOfVersion (Num 3)],
        Inl (Error_No_proof_key_exists_of_version (Num 3)))"
proof -
  have h: "\<forall>k \<in> set (proofKeys (sample_pythia True)).
      \<not> strict_equals (proofKeyObject.version k)
           (BreachProofPassword.version (sample_record (Num 3)))"
    by (simp add: sample_pythia_def sample_record_def)
  from proof_key_lookup_comes_first
         [of "sample_pythia True" "''a''" "sample_record (Num 3)" None]
       proof_key_lookup_comes_first
         [of "sample_pythia True" "''a''" "sample_record (Num 3)" "Some False"] h
  show ?thesis
    by (simp add: sample_pythia_def sample_record_def)
qed

end
